theory Spec2Isabelle
  imports Main "HOL-Library.Multiset"
begin

text \<open>
  A model of the message scheduler of \<open>index.js\<close> and \<open>server.js\<close>: \<open>readLines\<close>,
  the validation, the normalization of the targets and the loop over the messages of
  \<open>scheduleMessages\<close> (the same text in both files), the callback of a timer, and the
  two GET handlers of \<open>server.js\<close>. Files, the protocol client and the QR renderer
  are parameters; timers and console lines are returned as values.
\<close>

section \<open>Strings\<close>

text \<open>
  A JavaScript string is a sequence of UTF-16 code units. A code unit is modelled as a
  natural number and a string as a list of them, so that \<open>trim\<close>, \<open>split\<close>,
  \<open>includes\<close>, \<open>startsWith\<close> and the regular expression \<open>/\D/g\<close> (no \<open>u\<close> flag) work
  on the same units as in the program. \<open>js\<close> writes an ASCII literal as such a string.
\<close>

type_synonym jsstring = "nat list"

definition js :: "string \<Rightarrow> jsstring" where
  "js s = map of_char s"

text \<open>
  The code units that \<open>String.prototype.trim\<close> and \<open>parseInt\<close> strip: ECMAScript's
  WhiteSpace (TAB, VT, FF, ZWNBSP and the space separators) and LineTerminator
  (LF, CR, LS, PS).
\<close>

definition is_ws :: "nat \<Rightarrow> bool" where
  "is_ws c \<longleftrightarrow>
     c = 9 \<or> c = 10 \<or> c = 11 \<or> c = 12 \<or> c = 13 \<or> c = 32 \<or> c = 160 \<or> c = 5760 \<or>
     (8192 \<le> c \<and> c \<le> 8202) \<or> c = 8232 \<or> c = 8233 \<or> c = 8239 \<or> c = 8287 \<or>
     c = 12288 \<or> c = 65279"

definition trimStart :: "jsstring \<Rightarrow> jsstring" where
  "trimStart s = dropWhile is_ws s"

definition trim :: "jsstring \<Rightarrow> jsstring" where
  "trim s = rev (dropWhile is_ws (rev (dropWhile is_ws s)))"

text \<open>\<open>s.split('\n')\<close>: the pieces between line feeds; the empty string gives one empty piece.\<close>

fun split_nl :: "jsstring \<Rightarrow> jsstring list" where
  "split_nl [] = [[]]"
| "split_nl (c # cs) =
     (if c = 10 then [] # split_nl cs
      else (case split_nl cs of [] \<Rightarrow> [[c]] | l # ls \<Rightarrow> (c # l) # ls))"

text \<open>\<open>l.startsWith('#')\<close> and \<open>t.includes('@')\<close>.\<close>

definition startsWith_hash :: "jsstring \<Rightarrow> bool" where
  "startsWith_hash l = (case l of [] \<Rightarrow> False | c # _ \<Rightarrow> c = 35)"

definition includes_at :: "jsstring \<Rightarrow> bool" where
  "includes_at t \<longleftrightarrow> 64 \<in> set t"

definition is_decimal_digit :: "nat \<Rightarrow> bool" where
  "is_decimal_digit c \<longleftrightarrow> 48 \<le> c \<and> c \<le> 57"

section \<open>Input files\<close>

text \<open>
  The three input files of the working directory. A file system gives each of them its
  text as \<open>fs.readFileSync(file, 'utf8')\<close> returns it, or \<open>None\<close> when
  \<open>fs.existsSync\<close> is false. A file that exists is taken to be readable.
\<close>

datatype input_file = MessagesTxt | TimeTxt | TargetsTxt

type_synonym filesystem = "input_file \<Rightarrow> jsstring option"

text \<open>The line filter of \<open>readLines\<close>: \<open>l.length > 0 && !l.startsWith('#')\<close>.\<close>

definition keep_line :: "jsstring \<Rightarrow> bool" where
  "keep_line l \<longleftrightarrow> length l > 0 \<and> \<not> startsWith_hash l"

definition readLines :: "filesystem \<Rightarrow> input_file \<Rightarrow> jsstring list" where
  "readLines fs file =
     (case fs file of
        None \<Rightarrow> []
      | Some text \<Rightarrow> filter keep_line (map trim (split_nl text)))"

section \<open>Recipient addresses\<close>

text \<open>
  The function mapped over the target lines:
  \<open>t => { const clean = t.replace(/\D/g, ''); if (t.includes('@')) return t;
  return clean + '@s.whatsapp.net' }\<close>.
\<close>

definition normalize_target :: "jsstring \<Rightarrow> jsstring" where
  "normalize_target t =
     (let clean = filter is_decimal_digit t
      in if includes_at t then t else clean @ js ''@s.whatsapp.net'')"

section \<open>Numbers\<close>

text \<open>
  The Numbers that arise here are NaN, the doubles that are integers, and the two
  infinities (\<open>-0\<close> is \<open>0\<close> here). \<open>to_number\<close> is the Number of a mathematical
  integer: the integer itself up to 2^53, beyond that the nearest double, ties to the even
  significand, and an infinity from 2^1024 - 2^970 on. \<open>times_1000\<close> is the product
  \<open>delaySec * 1000\<close> of doubles: the exact product, rounded once.
\<close>

datatype jsnum = NaN | Num int | PosInfinity | NegInfinity

fun bitlen :: "nat \<Rightarrow> nat" where
  "bitlen n = (if n = 0 then 0 else Suc (bitlen (n div 2)))"

declare bitlen.simps [simp del]

definition round_to_double :: "nat \<Rightarrow> nat option" where
  "round_to_double n =
     (if n < 2 ^ 53 then Some n
      else let ulp = 2 ^ (bitlen n - 53);
               q = n div ulp;
               r = n mod ulp;
               q' = (if 2 * r < ulp \<or> (2 * r = ulp \<and> even q) then q else q + 1)
           in if q' * ulp < 2 ^ 1024 then Some (q' * ulp) else None)"

definition to_number :: "int \<Rightarrow> jsnum" where
  "to_number k =
     (case round_to_double (nat \<bar>k\<bar>) of
        None \<Rightarrow> if k < 0 then NegInfinity else PosInfinity
      | Some v \<Rightarrow> Num (if k < 0 then - int v else int v))"

definition times_1000 :: "jsnum \<Rightarrow> jsnum" where
  "times_1000 x =
     (case x of
        NaN \<Rightarrow> NaN
      | Num d \<Rightarrow> to_number (d * 1000)
      | PosInfinity \<Rightarrow> PosInfinity
      | NegInfinity \<Rightarrow> NegInfinity)"

definition isNaN :: "jsnum \<Rightarrow> bool" where
  "isNaN x \<longleftrightarrow> x = NaN"

section \<open>Delays\<close>

text \<open>
  \<open>parseInt(n)\<close> with no radix, after ECMAScript's algorithm: leading white space is
  stripped, then a sign; the prefix \<open>0x\<close> or \<open>0X\<close> selects radix 16, anything else
  radix 10; the longest run of digits of the radix is read, and an empty run gives NaN.
  The result is the Number of the signed integer of the digits, rounded as V8 rounds it
  (the standard lets an implementation drop decimal digits after the twentieth).
\<close>

definition digit_value :: "nat \<Rightarrow> nat option" where
  "digit_value c =
     (if 48 \<le> c \<and> c \<le> 57 then Some (c - 48)
      else if 97 \<le> c \<and> c \<le> 122 then Some (c - 87)
      else if 65 \<le> c \<and> c \<le> 90 then Some (c - 55)
      else None)"

definition radix_digit :: "nat \<Rightarrow> nat \<Rightarrow> bool" where
  "radix_digit R c = (case digit_value c of None \<Rightarrow> False | Some v \<Rightarrow> v < R)"

definition radix_value :: "nat \<Rightarrow> jsstring \<Rightarrow> nat" where
  "radix_value R Z =
     foldl (\<lambda>acc c. acc * R + (case digit_value c of None \<Rightarrow> 0 | Some v \<Rightarrow> v)) 0 Z"

definition hex_prefix :: "jsstring \<Rightarrow> bool" where
  "hex_prefix S = (case S of a # b # _ \<Rightarrow> a = 48 \<and> (b = 120 \<or> b = 88) | _ \<Rightarrow> False)"

definition parseInt :: "jsstring \<Rightarrow> jsnum" where
  "parseInt string =
     (let S = trimStart string;
          sign = (case S of [] \<Rightarrow> 1 | c # _ \<Rightarrow> if c = 45 then - 1 else (1::int));
          S1 = (case S of [] \<Rightarrow> S | c # cs \<Rightarrow> if c = 43 \<or> c = 45 then cs else S);
          R = (if hex_prefix S1 then 16 else 10);
          S2 = (if hex_prefix S1 then drop 2 S1 else S1);
          Z = takeWhile (radix_digit R) S2
      in if Z = [] then NaN else to_number (sign * int (radix_value R Z)))"

section \<open>Scheduling\<close>

text \<open>
  What \<open>scheduleMessages\<close> does to the world is one \<open>setTimeout\<close> call per scheduled
  message and lines on the console. A timer is the offset passed to \<open>setTimeout\<close>
  together with what its callback closes over: the message and the target list.
\<close>

record timer =
  offset_ms :: jsnum
  tmessage :: jsstring
  ttargets :: "jsstring list"

text \<open>What \<open>err.message || err\<close> prints.\<close>

datatype logged_error = ErrMessage jsstring | ErrItself

text \<open>
  The console lines: the three warnings of the validation, the line of a scheduled
  message (message, seconds, number of targets), and the two lines of a send.
\<close>

datatype log_line =
    WarnMessagesOrTimeEmpty
  | WarnLinesNotEqual
  | WarnTargetsEmpty
  | Scheduled jsstring jsnum nat
  | Sent jsstring jsstring
  | ErrorSending jsstring logged_error

record outcome =
  timers :: "timer list"
  console :: "log_line list"

text \<open>
  \<open>messages.forEach((message, i) => ...)\<close>, with \<open>i\<close> the index of the head of the
  remaining messages. \<open>delays[i]\<close> out of range is \<open>undefined\<close>, for which \<open>isNaN\<close>
  is true.
\<close>

fun forEach_message :: "jsstring list \<Rightarrow> jsnum list \<Rightarrow> nat \<Rightarrow> jsstring list \<Rightarrow> outcome" where
  "forEach_message targets delays i [] = \<lparr>timers = [], console = []\<rparr>"
| "forEach_message targets delays i (message # rest) =
     (let delaySec = (if i < length delays then delays ! i else NaN);
          r = forEach_message targets delays (Suc i) rest
      in if isNaN delaySec then r
         else \<lparr>timers = \<lparr>offset_ms = times_1000 delaySec, tmessage = message,
                           ttargets = targets\<rparr> # timers r,
               console = Scheduled message delaySec (length targets) # console r\<rparr>)"

definition scheduleMessages :: "filesystem \<Rightarrow> outcome" where
  "scheduleMessages fs =
     (let messages = readLines fs MessagesTxt;
          delays = map parseInt (readLines fs TimeTxt);
          targetsRaw = readLines fs TargetsTxt
      in if length messages = 0 \<or> length delays = 0
           then \<lparr>timers = [], console = [WarnMessagesOrTimeEmpty]\<rparr>
         else if length messages \<noteq> length delays
           then \<lparr>timers = [], console = [WarnLinesNotEqual]\<rparr>
         else if length targetsRaw = 0
           then \<lparr>timers = [], console = [WarnTargetsEmpty]\<rparr>
         else forEach_message (map normalize_target targetsRaw) delays 0 messages)"

section \<open>The timers of the runtime\<close>

text \<open>
  \<open>setTimeout\<close> is Node's. A delay that is not between 1 and 2147483647 milliseconds,
  an infinity among them, is set to 1. The timers set in one synchronous run are measured
  from one instant, so they fire in the order of their delays, and timers of equal delay
  fire in the order in which they were set.
\<close>

definition timeout_ms :: "jsnum \<Rightarrow> int" where
  "timeout_ms x =
     (case x of Num k \<Rightarrow> if 1 \<le> k \<and> k \<le> 2147483647 then k else 1 | _ \<Rightarrow> 1)"

definition firing_order :: "timer list \<Rightarrow> timer list" where
  "firing_order tms = sort_key (\<lambda>tm. timeout_ms (offset_ms tm)) tms"

section \<open>Sending\<close>

text \<open>
  \<open>sock.sendMessage\<close> belongs to the protocol client. The client is any function from
  the number of the call (counted over the whole run), the address and the text to what
  the call does: it delivers, or it fails with a thrown value (a synchronous throw and a
  rejected promise reach the same \<open>catch\<close>). A thrown value is \<open>null\<close> or
  \<open>undefined\<close>, or a value with its \<open>message\<close> property when that is a string. The
  client answers a call before the next timer fires.
\<close>

datatype thrown = ThrownNullish | ThrownValue "jsstring option"

datatype send_outcome = Delivered | Failed thrown

type_synonym sock = "nat \<Rightarrow> jsstring \<Rightarrow> jsstring \<Rightarrow> send_outcome"

text \<open>
  The process while the timers fire: the calls of \<open>sock.sendMessage\<close> made so far, each
  with its address and text, the lines the send callbacks have printed, and whether the
  process has ended. A call is made through \<open>sendMessage\<close> only, which records it.
\<close>

record process =
  calls :: "(jsstring \<times> jsstring) list"
  printed :: "log_line list"
  exited :: bool

definition sendMessage :: "sock \<Rightarrow> jsstring \<Rightarrow> jsstring \<Rightarrow> process \<Rightarrow> send_outcome \<times> process" where
  "sendMessage client target message p =
     (client (length (calls p)) target message, p\<lparr>calls := calls p @ [(target, message)]\<rparr>)"

text \<open>
  \<open>targets.forEach(async (target) => ...)\<close>: every callback runs up to its \<open>await\<close>,
  that is, makes its call, before any of them goes on.
\<close>

fun forEach_target ::
  "sock \<Rightarrow> jsstring \<Rightarrow> jsstring list \<Rightarrow> process \<Rightarrow> (jsstring \<times> send_outcome) list \<times> process" where
  "forEach_target client message [] p = ([], p)"
| "forEach_target client message (target # rest) p =
     (case sendMessage client target message p of
        (answer, p1) \<Rightarrow>
          (case forEach_target client message rest p1 of
             (pending, p2) \<Rightarrow> ((target, answer) # pending, p2)))"

text \<open>
  What follows the \<open>await\<close> in one callback, and the promise of the callback: fulfilled
  after the line it logged, or rejected, when reading \<open>err.message\<close> of \<open>null\<close> or
  \<open>undefined\<close> throws inside the handler.
\<close>

datatype callback_result = Fulfilled log_line | Rejected

definition logged_value :: "jsstring option \<Rightarrow> logged_error" where
  "logged_value m =
     (case m of None \<Rightarrow> ErrItself | Some s \<Rightarrow> if s = [] then ErrItself else ErrMessage s)"

definition resume :: "jsstring \<Rightarrow> jsstring \<times> send_outcome \<Rightarrow> callback_result" where
  "resume message pending =
     (case pending of
        (target, Delivered) \<Rightarrow> Fulfilled (Sent target message)
      | (target, Failed err) \<Rightarrow>
          (case err of
             ThrownNullish \<Rightarrow> Rejected
           | ThrownValue m \<Rightarrow> Fulfilled (ErrorSending target (logged_value m))))"

text \<open>
  The callback of a timer. \<open>forEach\<close> drops the promises of the callbacks, so nothing
  handles a rejected one: Node, from version 15 on, then ends the process, once the
  callbacks of this timer have gone on.
\<close>

definition fire :: "sock \<Rightarrow> timer \<Rightarrow> process \<Rightarrow> process" where
  "fire client tm p =
     (case forEach_target client (tmessage tm) (ttargets tm) p of
        (pending, p1) \<Rightarrow>
          (let results = map (resume (tmessage tm)) pending
           in p1\<lparr>printed := printed p1 @ [l. Fulfilled l \<leftarrow> results],
                 exited := Rejected \<in> set results\<rparr>))"

text \<open>Timers fire one after the other while the process lives.\<close>

fun run_timers :: "sock \<Rightarrow> timer list \<Rightarrow> process \<Rightarrow> process" where
  "run_timers client [] p = p"
| "run_timers client (tm # tms) p =
     (if exited p then p else run_timers client tms (fire client tm p))"

text \<open>The run that follows \<open>scheduleMessages\<close>: its timers fire in the runtime's order.\<close>

definition run_schedule :: "sock \<Rightarrow> filesystem \<Rightarrow> process" where
  "run_schedule client fs =
     run_timers client (firing_order (timers (scheduleMessages fs)))
       \<lparr>calls = [], printed = [], exited = False\<rparr>"

section \<open>The HTTP surface of the server variant\<close>

text \<open>
  The three variables of \<open>server.js\<close> that the handlers read, and the two handlers.
  \<open>qrcode.toString\<close> is a parameter: it gives the SVG text, or \<open>None\<close> when it throws
  or its promise is rejected. \<open>authed\<close> is what \<open>fs.existsSync('./auth_info.json')\<close>
  answers. A response is its status code with a JSON body (\<open>res.json\<close>), with a text
  body (\<open>res.status(n).send\<close>), or with a body sent as \<open>image/svg+xml\<close>.
\<close>

record server_state =
  connectionStatus :: jsstring
  lastError :: "jsstring option"
  lastQr :: "jsstring option"

text \<open>\<open>!!lastQr\<close>: \<open>null\<close> and the empty string are falsy.\<close>

definition hasQr :: "server_state \<Rightarrow> bool" where
  "hasQr st = (case lastQr st of None \<Rightarrow> False | Some q \<Rightarrow> q \<noteq> [])"

record status_json =
  connection_field :: jsstring
  lastError_field :: "jsstring option"
  authed_field :: bool
  hasQr_field :: bool

datatype response =
    Json nat status_json
  | Text nat jsstring
  | Svg nat jsstring

definition get_status :: "bool \<Rightarrow> server_state \<Rightarrow> response" where
  "get_status authed st =
     Json 200 \<lparr>connection_field = connectionStatus st, lastError_field = lastError st,
               authed_field = authed, hasQr_field = hasQr st\<rparr>"

definition get_qr_svg :: "(jsstring \<Rightarrow> jsstring option) \<Rightarrow> server_state \<Rightarrow> response" where
  "get_qr_svg toString st =
     (case lastQr st of
        None \<Rightarrow> Text 404 (js ''No QR available'')
      | Some q \<Rightarrow>
          if q = [] then Text 404 (js ''No QR available'')
          else (case toString q of
                  Some svg \<Rightarrow> Svg 200 svg
                | None \<Rightarrow> Text 500 (js ''QR render error'')))"

section \<open>Example inputs\<close>

text \<open>
  A working directory with two messages among a comment and a blank line, two delays, and
  two targets, one a raw number and one already an address.
\<close>

definition example_fs :: filesystem where
  "example_fs file =
     (case file of
        MessagesTxt \<Rightarrow> Some (js ''hello\<newline># note\<newline>\<newline>  world  \<newline>'')
      | TimeTxt \<Rightarrow> Some (js ''5\<newline>2\<newline>'')
      | TargetsTxt \<Rightarrow> Some (js ''+1 (555) 123-4567\<newline>group@g.us\<newline>''))"

text \<open>The second of three delays does not parse; the third is negative.\<close>

definition skip_fs :: filesystem where
  "skip_fs file =
     (case file of
        MessagesTxt \<Rightarrow> Some (js ''first\<newline>second\<newline>third'')
      | TimeTxt \<Rightarrow> Some (js ''10\<newline>abc\<newline>-3'')
      | TargetsTxt \<Rightarrow> Some (js ''15551234567''))"

text \<open>Two message lines against three delay lines.\<close>

definition mismatch_fs :: filesystem where
  "mismatch_fs file =
     (case file of
        MessagesTxt \<Rightarrow> Some (js ''a\<newline>b'')
      | TimeTxt \<Rightarrow> Some (js ''1\<newline>2\<newline>3'')
      | TargetsTxt \<Rightarrow> Some (js ''15551234567''))"

text \<open>\<open>targets.txt\<close> does not exist.\<close>

definition no_targets_fs :: filesystem where
  "no_targets_fs file = (case file of TargetsTxt \<Rightarrow> None | _ \<Rightarrow> example_fs file)"

text \<open>The only delay is \<open>0x\<close>: a zero followed by a letter.\<close>

definition hex_fs :: filesystem where
  "hex_fs file =
     (case file of
        MessagesTxt \<Rightarrow> Some (js ''hi'')
      | TimeTxt \<Rightarrow> Some (js ''0x'')
      | TargetsTxt \<Rightarrow> Some (js ''15551234567''))"

text \<open>The only message line is a hash tag after one space.\<close>

definition indented_fs :: filesystem where
  "indented_fs file =
     (case file of
        MessagesTxt \<Rightarrow> Some (js '' #sale today'')
      | TimeTxt \<Rightarrow> Some (js ''5'')
      | TargetsTxt \<Rightarrow> Some (js ''15551234567''))"


text \<open>Two messages, delays of no and of one second, two targets.\<close>

definition pair_fs :: filesystem where
  "pair_fs file =
     (case file of
        MessagesTxt \<Rightarrow> Some (js ''a\<newline>b'')
      | TimeTxt \<Rightarrow> Some (js ''0\<newline>1'')
      | TargetsTxt \<Rightarrow> Some (js ''bad@x\<newline>2''))"

text \<open>A client whose sends to one address fail with an error that has a message.\<close>

definition error_sock :: sock where
  "error_sock n target message =
     (if target = js ''bad@x'' then Failed (ThrownValue (Some (js ''boom''))) else Delivered)"

text \<open>A client whose sends to one address are rejected with \<open>null\<close>.\<close>

definition null_sock :: sock where
  "null_sock n target message =
     (if target = js ''bad@x'' then Failed ThrownNullish else Delivered)"

text \<open>A server that holds a scannable code, and a renderer that throws on every input.\<close>

definition pending_state :: server_state where
  "pending_state = \<lparr>connectionStatus = js ''qr'', lastError = None, lastQr = Some (js ''2@abc'')\<rparr>"

definition failing_toString :: "jsstring \<Rightarrow> jsstring option" where
  "failing_toString q = None"

definition svg_toString :: "jsstring \<Rightarrow> jsstring option" where
  "svg_toString q = Some (js ''<svg>'' @ q @ js ''</svg>'')"

section \<open>Lemmas about the parts\<close>

text \<open>The definitions that evaluating the model on a concrete input unfolds.\<close>

lemmas eval_defs = js_def readLines_def keep_line_def startsWith_hash_def trim_def trimStart_def
  is_ws_def includes_at_def is_decimal_digit_def normalize_target_def parseInt_def
  hex_prefix_def radix_digit_def radix_value_def digit_value_def scheduleMessages_def
  to_number_def round_to_double_def times_1000_def isNaN_def Let_def

lemmas run_defs = run_schedule_def firing_order_def timeout_ms_def fire_def sendMessage_def
  resume_def logged_value_def

subsection \<open>Lines\<close>

lemma all_dropWhile: "(\<forall>x\<in>set (dropWhile P l). P x) \<longleftrightarrow> (\<forall>x\<in>set l. P x)"
  by (induction l) auto

lemma trim_empty_iff: "trim l = [] \<longleftrightarrow> list_all is_ws l"
  by (simp add: trim_def all_dropWhile list_all_iff)

lemma dropWhile_rev_Cons:
  "\<not> P c \<Longrightarrow> rev (dropWhile P (rev (c # cs))) = c # rev (dropWhile P (rev cs))"
  by (induction cs rule: rev_induct) auto

lemma startsWith_hash_trim: "startsWith_hash (trim l) \<longleftrightarrow> startsWith_hash (trimStart l)"
proof (cases "dropWhile is_ws l")
  case Nil
  then have "trim l = []" "trimStart l = []"
    unfolding trim_def trimStart_def by (simp_all del: dropWhile_eq_Nil_conv)
  then show ?thesis by simp
next
  case (Cons c cs)
  then have "\<not> is_ws c"
    by (metis dropWhile_eq_Cons_conv)
  then have "trim l = c # rev (dropWhile is_ws (rev cs))"
    unfolding trim_def Cons by (rule dropWhile_rev_Cons)
  moreover have "trimStart l = c # cs"
    unfolding trimStart_def by (rule Cons)
  ultimately show ?thesis
    by (simp add: startsWith_hash_def)
qed

lemma keep_line_trim:
  "keep_line (trim l) \<longleftrightarrow> \<not> list_all is_ws l \<and> \<not> startsWith_hash (trimStart l)"
  by (simp add: keep_line_def trim_empty_iff startsWith_hash_trim)

lemma filter_keep_line:
  "filter keep_line (map trim ls) =
     [trim l. l \<leftarrow> ls, \<not> list_all is_ws l \<and> \<not> startsWith_hash (trimStart l)]"
  by (induction ls) (simp_all add: keep_line_trim)

lemma readLines_missing: "fs file = None \<Longrightarrow> readLines fs file = []"
  by (simp add: readLines_def)

subsection \<open>Validation\<close>

lemma scheduleMessages_valid:
  assumes "readLines fs MessagesTxt \<noteq> []"
    and "length (readLines fs MessagesTxt) = length (readLines fs TimeTxt)"
    and "readLines fs TargetsTxt \<noteq> []"
  shows "scheduleMessages fs =
           forEach_message (map normalize_target (readLines fs TargetsTxt))
             (map parseInt (readLines fs TimeTxt)) 0 (readLines fs MessagesTxt)"
  using assms by (auto simp: scheduleMessages_def Let_def)

lemma scheduleMessages_abort:
  assumes "readLines fs MessagesTxt = [] \<or> readLines fs TimeTxt = [] \<or>
           length (readLines fs MessagesTxt) \<noteq> length (readLines fs TimeTxt) \<or>
           readLines fs TargetsTxt = []"
  shows "scheduleMessages fs = \<lparr>timers = [], console = [WarnMessagesOrTimeEmpty]\<rparr> \<or>
         scheduleMessages fs = \<lparr>timers = [], console = [WarnLinesNotEqual]\<rparr> \<or>
         scheduleMessages fs = \<lparr>timers = [], console = [WarnTargetsEmpty]\<rparr>"
  using assms by (auto simp: scheduleMessages_def Let_def)

subsection \<open>Numbers\<close>

lemma round_to_double_exact: "n < 2 ^ 53 \<Longrightarrow> round_to_double n = Some n"
  by (simp add: round_to_double_def)

lemma to_number_exact: "\<bar>k\<bar> < 2 ^ 53 \<Longrightarrow> to_number k = Num k"
proof -
  assume "\<bar>k\<bar> < 2 ^ 53"
  then have "nat \<bar>k\<bar> < 2 ^ 53"
    by (simp add: nat_less_iff)
  then have "round_to_double (nat \<bar>k\<bar>) = Some (nat \<bar>k\<bar>)"
    by (rule round_to_double_exact)
  then show ?thesis
    by (simp add: to_number_def)
qed

lemma to_number_not_NaN: "to_number k \<noteq> NaN"
  by (simp add: to_number_def split: option.split)

lemma times_1000_exact: "\<bar>d * 1000\<bar> < 2 ^ 53 \<Longrightarrow> times_1000 (Num d) = Num (d * 1000)"
  by (simp add: times_1000_def to_number_exact)

lemma round_to_double_le: "n \<le> 2 ^ 53 \<Longrightarrow> round_to_double n = Some n"
proof (cases "n < 2 ^ 53")
  case True
  then show ?thesis by (rule round_to_double_exact)
next
  case False
  assume "n \<le> 2 ^ 53"
  with False have n: "n = 9007199254740992" by simp
  show ?thesis
    unfolding n by (simp add: round_to_double_def bitlen.simps)
qed

lemma to_number_le: "\<bar>k\<bar> \<le> 2 ^ 53 \<Longrightarrow> to_number k = Num k"
proof -
  assume "\<bar>k\<bar> \<le> 2 ^ 53"
  then have "nat \<bar>k\<bar> \<le> 2 ^ 53"
    by (simp add: nat_le_iff)
  then have "round_to_double (nat \<bar>k\<bar>) = Some (nat \<bar>k\<bar>)"
    by (rule round_to_double_le)
  then show ?thesis
    by (simp add: to_number_def)
qed

subsection \<open>The loop over the messages\<close>

lemma forEach_message_timers:
  "timers (forEach_message targets delays i ms) =
     [\<lparr>offset_ms = times_1000 x, tmessage = m, ttargets = targets\<rparr>.
        (m, x) \<leftarrow> zip ms (drop i delays), x \<noteq> NaN]"
proof (induction ms arbitrary: i)
  case Nil
  then show ?case by simp
next
  case (Cons m ms)
  show ?case
  proof (cases "i < length delays")
    case True
    then have "drop i delays = delays ! i # drop (Suc i) delays"
      by (simp add: Cons_nth_drop_Suc)
    then show ?thesis using True Cons
      by (simp add: isNaN_def Let_def)
  next
    case False
    then show ?thesis using Cons by (simp add: isNaN_def Let_def)
  qed
qed

lemma forEach_message_console:
  "console (forEach_message targets delays i ms) =
     [Scheduled m x (length targets). (m, x) \<leftarrow> zip ms (drop i delays), x \<noteq> NaN]"
proof (induction ms arbitrary: i)
  case Nil
  then show ?case by simp
next
  case (Cons m ms)
  show ?case
  proof (cases "i < length delays")
    case True
    then have "drop i delays = delays ! i # drop (Suc i) delays"
      by (simp add: Cons_nth_drop_Suc)
    then show ?thesis using True Cons
      by (simp add: isNaN_def Let_def)
  next
    case False
    then show ?thesis using Cons by (simp add: isNaN_def Let_def)
  qed
qed



lemma count_of_timers:
  "length ms = length ds \<Longrightarrow>
     length [\<lparr>offset_ms = times_1000 x, tmessage = m, ttargets = targets\<rparr>.
               (m, x) \<leftarrow> zip ms ds, x \<noteq> NaN] = length (filter (\<lambda>x. x \<noteq> NaN) ds)"
  by (induction ms ds rule: list_induct2) auto

lemma valid_timers:
  assumes "readLines fs MessagesTxt \<noteq> []"
    and "length (readLines fs MessagesTxt) = length (readLines fs TimeTxt)"
    and "readLines fs TargetsTxt \<noteq> []"
  shows "timers (scheduleMessages fs) =
           [\<lparr>offset_ms = times_1000 x, tmessage = m,
             ttargets = map normalize_target (readLines fs TargetsTxt)\<rparr>.
              (m, x) \<leftarrow> zip (readLines fs MessagesTxt) (map parseInt (readLines fs TimeTxt)),
              x \<noteq> NaN]"
  using assms by (simp add: scheduleMessages_valid forEach_message_timers)

lemma valid_console:
  assumes "readLines fs MessagesTxt \<noteq> []"
    and "length (readLines fs MessagesTxt) = length (readLines fs TimeTxt)"
    and "readLines fs TargetsTxt \<noteq> []"
  shows "console (scheduleMessages fs) =
           [Scheduled m x (length (readLines fs TargetsTxt)).
              (m, x) \<leftarrow> zip (readLines fs MessagesTxt) (map parseInt (readLines fs TimeTxt)),
              x \<noteq> NaN]"
  using assms by (simp add: scheduleMessages_valid forEach_message_console cong: if_cong)

lemma timer_of_index:
  assumes "readLines fs MessagesTxt \<noteq> []"
    and "length (readLines fs MessagesTxt) = length (readLines fs TimeTxt)"
    and "readLines fs TargetsTxt \<noteq> []"
    and "i < length (readLines fs TimeTxt)"
    and "parseInt (readLines fs TimeTxt ! i) \<noteq> NaN"
  shows "\<lparr>offset_ms = times_1000 (parseInt (readLines fs TimeTxt ! i)),
          tmessage = readLines fs MessagesTxt ! i,
          ttargets = map normalize_target (readLines fs TargetsTxt)\<rparr>
           \<in> set (timers (scheduleMessages fs))"
proof -
  let ?ms = "readLines fs MessagesTxt"
  let ?ds = "map parseInt (readLines fs TimeTxt)"
  have "(?ms ! i, parseInt (readLines fs TimeTxt ! i)) \<in> set (zip ?ms ?ds)"
    using assms(2,4) by (auto simp: in_set_zip intro!: exI [of _ i])
  then show ?thesis
    unfolding valid_timers [OF assms(1-3)] using assms(5) by force
qed

subsection \<open>Firing\<close>

lemma forEach_target_process:
  "calls (snd (forEach_target client m ts p)) = calls p @ map (\<lambda>t. (t, m)) ts \<and>
   printed (snd (forEach_target client m ts p)) = printed p \<and>
   exited (snd (forEach_target client m ts p)) = exited p"
proof (induction ts arbitrary: p)
  case Nil
  then show ?case by simp
next
  case (Cons t ts)
  let ?p1 = "p\<lparr>calls := calls p @ [(t, m)]\<rparr>"
  obtain pending p2 where rest: "forEach_target client m ts ?p1 = (pending, p2)"
    by (cases "forEach_target client m ts ?p1")
  have step: "snd (forEach_target client m (t # ts) p) = p2"
    by (simp add: sendMessage_def rest)
  from Cons.IH [of ?p1] show ?case
    unfolding step by (simp add: rest)
qed

lemma forEach_target_answers:
  "(t, a) \<in> set (fst (forEach_target client m ts p)) \<Longrightarrow> \<exists>n. a = client n t m"
proof (induction ts arbitrary: p)
  case Nil
  then show ?case by simp
next
  case (Cons t' ts)
  let ?p1 = "p\<lparr>calls := calls p @ [(t', m)]\<rparr>"
  obtain pending p2 where rest: "forEach_target client m ts ?p1 = (pending, p2)"
    by (cases "forEach_target client m ts ?p1")
  with Cons.prems have "(t, a) = (t', client (length (calls p)) t' m) \<or> (t, a) \<in> set pending"
    by (simp add: sendMessage_def)
  then show ?case
  proof
    assume "(t, a) = (t', client (length (calls p)) t' m)"
    then show ?thesis by blast
  next
    assume "(t, a) \<in> set pending"
    then have "(t, a) \<in> set (fst (forEach_target client m ts ?p1))"
      by (simp add: rest)
    then show ?thesis by (rule Cons.IH)
  qed
qed

lemma fire_calls:
  "calls (fire client tm p) = calls p @ map (\<lambda>t. (t, tmessage tm)) (ttargets tm)"
  using forEach_target_process [of client "tmessage tm" "ttargets tm" p]
  by (cases "forEach_target client (tmessage tm) (ttargets tm) p") (simp add: fire_def)

lemma resume_Rejected:
  "resume m (t, a) = Rejected \<longleftrightarrow> a = Failed ThrownNullish"
  by (simp add: resume_def split: send_outcome.splits thrown.splits)

lemma fire_exited:
  assumes "\<forall>n t m. client n t m \<noteq> Failed ThrownNullish"
  shows "\<not> exited (fire client tm p)"
proof -
  obtain pending p1 where fe: "forEach_target client (tmessage tm) (ttargets tm) p = (pending, p1)"
    by (cases "forEach_target client (tmessage tm) (ttargets tm) p")
  have "Rejected \<noteq> resume (tmessage tm) x" if "x \<in> set pending" for x
  proof -
    obtain t a where x: "x = (t, a)" by (cases x)
    with that fe have "(t, a) \<in> set (fst (forEach_target client (tmessage tm) (ttargets tm) p))"
      by simp
    then obtain n where "a = client n t (tmessage tm)"
      using forEach_target_answers by blast
    with assms have "a \<noteq> Failed ThrownNullish" by simp
    then show ?thesis using resume_Rejected [of "tmessage tm" t a] by (simp add: x)
  qed
  then have "Rejected \<notin> set (map (resume (tmessage tm)) pending)"
    by auto
  then show ?thesis
    by (simp add: fire_def fe)
qed

lemma run_timers_calls:
  assumes "\<forall>n t m. client n t m \<noteq> Failed ThrownNullish" and "\<not> exited p"
  shows "calls (run_timers client tms p) =
           calls p @ concat (map (\<lambda>tm. map (\<lambda>t. (t, tmessage tm)) (ttargets tm)) tms) \<and>
         \<not> exited (run_timers client tms p)"
  using assms(2)
proof (induction tms arbitrary: p)
  case Nil
  then show ?case by simp
next
  case (Cons tm tms)
  have "\<not> exited (fire client tm p)"
    using assms(1) by (rule fire_exited)
  from Cons.IH [OF this] Cons.prems show ?case
    by (simp add: fire_calls)
qed

lemma mset_concat_map:
  "mset (concat (map f xs)) = sum_mset (image_mset (\<lambda>x. mset (f x)) (mset xs))"
  by (induction xs) simp_all

lemma all_parsed_pairs:
  "length ms = length ds \<Longrightarrow> \<forall>d\<in>set ds. d \<noteq> NaN \<Longrightarrow>
     concat (map (\<lambda>tm. map (\<lambda>t. (t, tmessage tm)) (ttargets tm))
       [\<lparr>offset_ms = times_1000 x, tmessage = m, ttargets = targets\<rparr>.
          (m, x) \<leftarrow> zip ms ds, x \<noteq> NaN])
     = concat (map (\<lambda>m. map (\<lambda>t. (t, m)) targets) ms)"
  by (induction ms ds rule: list_induct2) auto

text \<open>
  What the run does when no call is rejected with \<open>null\<close> or \<open>undefined\<close>: with valid
  files and every delay parsed, one call for each pair of a message and a target.
\<close>

lemma all_pairs_sent:
  assumes "readLines fs MessagesTxt \<noteq> []"
    and "length (readLines fs MessagesTxt) = length (readLines fs TimeTxt)"
    and "readLines fs TargetsTxt \<noteq> []"
    and "\<forall>e\<in>set (readLines fs TimeTxt). parseInt e \<noteq> NaN"
    and "\<forall>n t m. client n t m \<noteq> Failed ThrownNullish"
  shows "mset (calls (run_schedule client fs)) =
           mset (concat (map (\<lambda>m. map (\<lambda>t. (t, m)) (map normalize_target (readLines fs TargetsTxt)))
                   (readLines fs MessagesTxt)))"
    and "length (calls (run_schedule client fs)) =
           length (readLines fs MessagesTxt) * length (readLines fs TargetsTxt)"
    and "\<not> exited (run_schedule client fs)"
proof -
  let ?ms = "readLines fs MessagesTxt"
  let ?targets = "map normalize_target (readLines fs TargetsTxt)"
  let ?inv = "\<lambda>tm. map (\<lambda>t. (t, tmessage tm)) (ttargets tm)"
  let ?tms = "timers (scheduleMessages fs)"
  have run: "calls (run_schedule client fs) = concat (map ?inv (firing_order ?tms))"
    "\<not> exited (run_schedule client fs)"
    using run_timers_calls [OF assms(5), of "\<lparr>calls = [], printed = [], exited = False\<rparr>"]
    by (simp_all add: run_schedule_def)
  have "mset (firing_order ?tms) = mset ?tms"
    by (simp add: firing_order_def)
  then have "mset (concat (map ?inv (firing_order ?tms))) = mset (concat (map ?inv ?tms))"
    by (simp only: mset_concat_map)
  also have "concat (map ?inv ?tms) = concat (map (\<lambda>m. map (\<lambda>t. (t, m)) ?targets) ?ms)"
    unfolding valid_timers [OF assms(1-3)] using assms(2,4) by (subst all_parsed_pairs) auto
  finally show m: "mset (calls (run_schedule client fs)) =
      mset (concat (map (\<lambda>m. map (\<lambda>t. (t, m)) ?targets) ?ms))"
    by (simp only: run)
  have "size (mset (calls (run_schedule client fs))) =
      size (mset (concat (map (\<lambda>m. map (\<lambda>t. (t, m)) ?targets) ?ms)))"
    using m by (rule arg_cong)
  then show "length (calls (run_schedule client fs)) = length ?ms * length (readLines fs TargetsTxt)"
    by (simp add: length_concat comp_def sum_list_triv)
  show "\<not> exited (run_schedule client fs)" by (rule run)
qed

subsection \<open>Decimal entries\<close>

lemma radix_digit_decimal: "radix_digit 10 c \<longleftrightarrow> is_decimal_digit c"
  by (auto simp: radix_digit_def digit_value_def is_decimal_digit_def)

lemma takeWhile_digits:
  assumes "\<forall>c\<in>set ds. is_decimal_digit c"
    and "case rest of [] \<Rightarrow> True | c # _ \<Rightarrow> \<not> is_decimal_digit c"
  shows "takeWhile (radix_digit 10) (ds @ rest) = ds"
proof -
  have "takeWhile (radix_digit 10) rest = []"
    using assms(2) by (cases rest) (simp_all add: radix_digit_decimal)
  moreover have "takeWhile (radix_digit 10) (ds @ rest) = ds @ takeWhile (radix_digit 10) rest"
    using assms(1) by (intro takeWhile_append2) (simp add: radix_digit_decimal)
  ultimately show ?thesis by simp
qed

lemma parseInt_unsigned:
  assumes "ds \<noteq> []" and "\<forall>c\<in>set ds. is_decimal_digit c"
    and "case rest of [] \<Rightarrow> True | c # _ \<Rightarrow> \<not> is_decimal_digit c"
    and "\<not> hex_prefix (ds @ rest)"
  shows "parseInt (ds @ rest) = to_number (int (radix_value 10 ds))"
    and "parseInt (43 # ds @ rest) = to_number (int (radix_value 10 ds))"
    and "parseInt (45 # ds @ rest) = to_number (- int (radix_value 10 ds))"
proof -
  obtain c cs where ds: "ds = c # cs"
    using assms(1) by (cases ds) auto
  have c: "is_decimal_digit c"
    using assms(2) ds by simp
  then have "\<not> is_ws c" "c \<noteq> 43" "c \<noteq> 45"
    by (auto simp: is_decimal_digit_def is_ws_def)
  note tw = takeWhile_digits [OF assms(2,3)]
  have ws: "\<not> is_ws 43" "\<not> is_ws 45"
    by (simp_all add: is_ws_def)
  show "parseInt (ds @ rest) = to_number (int (radix_value 10 ds))"
    using \<open>\<not> is_ws c\<close> \<open>c \<noteq> 43\<close> \<open>c \<noteq> 45\<close> assms(1,4) tw
    by (simp add: parseInt_def trimStart_def ds)
  show "parseInt (43 # ds @ rest) = to_number (int (radix_value 10 ds))"
    using ws assms(1,4) tw by (simp add: parseInt_def trimStart_def)
  show "parseInt (45 # ds @ rest) = to_number (- int (radix_value 10 ds))"
    using ws assms(1,4) tw by (simp add: parseInt_def trimStart_def)
qed

subsection \<open>The order of firing\<close>


section \<open>The claims\<close>

text \<open>
  C1. The claim has \<open>messages.length \<times> targets.length\<close> calls of
  \<open>sock.sendMessage\<close> for every run whose files are valid and whose delays all parse.
  The run below has two messages, delays of no and of one second, two targets, and a
  client that rejects every send to one address with \<open>null\<close>. When the first timer
  fires both targets are called; the handler of the rejected send throws on
  \<open>err.message\<close>, nothing handles the promise of its callback, and the process ends
  before the second timer fires: two calls, not four. The same files with a client that
  fails with an error give the four calls.
\<close>

theorem null_rejection_ends_run:
  "length (readLines pair_fs MessagesTxt) * length (readLines pair_fs TargetsTxt) = 4 \<and>
   map parseInt (readLines pair_fs TimeTxt) = [Num 0, Num 1] \<and>
   calls (run_schedule null_sock pair_fs) =
     [(js ''bad@x'', js ''a''), (js ''2@s.whatsapp.net'', js ''a'')] \<and>
   exited (run_schedule null_sock pair_fs) \<and>
   length (calls (run_schedule error_sock pair_fs)) = 4"
proof -
  have lines: "readLines pair_fs MessagesTxt = [js ''a'', js ''b'']"
    "readLines pair_fs TimeTxt = [js ''0'', js ''1'']"
    "readLines pair_fs TargetsTxt = [js ''bad@x'', js ''2'']"
    by (simp_all add: pair_fs_def js_def readLines_def keep_line_def startsWith_hash_def
        trim_def is_ws_def)
  have nums: "parseInt (js ''0'') = Num 0" "parseInt (js ''1'') = Num 1"
    by (simp_all add: eval_defs)
  have sched: "timers (scheduleMessages pair_fs) =
      [\<lparr>offset_ms = Num 0, tmessage = js ''a'',
        ttargets = [js ''bad@x'', js ''2@s.whatsapp.net'']\<rparr>,
       \<lparr>offset_ms = Num 1000, tmessage = js ''b'',
        ttargets = [js ''bad@x'', js ''2@s.whatsapp.net'']\<rparr>]"
    by (simp add: pair_fs_def eval_defs)
  have "calls (run_schedule null_sock pair_fs) =
      [(js ''bad@x'', js ''a''), (js ''2@s.whatsapp.net'', js ''a'')]"
    "exited (run_schedule null_sock pair_fs)"
    "length (calls (run_schedule error_sock pair_fs)) = 4"
    by (simp_all add: sched run_defs null_sock_def error_sock_def js_def)
  then show ?thesis
    by (simp add: lines nums)
qed

text \<open>
  C2. Every target line that \<open>readLines\<close> yields is normalized by one function: a line
  that contains \<open>@\<close> is the recipient address as it stands; from any other line the
  digits are kept, in order, and \<open>@s.whatsapp.net\<close> is appended. So \<open>15551234567\<close>
  becomes \<open>15551234567@s.whatsapp.net\<close>, and every timer carries the target lines
  normalized so.
\<close>

theorem recipient_normalized:
  "normalize_target t =
     (if includes_at t then t else filter is_decimal_digit t @ js ''@s.whatsapp.net'') \<and>
   normalize_target (js ''15551234567'') = js ''15551234567@s.whatsapp.net'' \<and>
   (\<forall>tm\<in>set (timers (scheduleMessages fs)).
      ttargets tm = map normalize_target (readLines fs TargetsTxt))"
proof -
  have "normalize_target (js ''15551234567'') = js ''15551234567@s.whatsapp.net''"
    by (simp add: js_def normalize_target_def includes_at_def is_decimal_digit_def)
  moreover have "\<forall>tm\<in>set (timers (scheduleMessages fs)).
      ttargets tm = map normalize_target (readLines fs TargetsTxt)"
    by (auto simp: scheduleMessages_def Let_def forEach_message_timers)
  ultimately show ?thesis
    by (simp add: normalize_target_def)
qed

theorem recipient_normalized_witness:
  "normalize_target (js ''group@g.us'') = js ''group@g.us'' \<and>
   normalize_target (js ''+1 (555) 123-4567'') = js ''15551234567@s.whatsapp.net'' \<and>
   map ttargets (timers (scheduleMessages example_fs)) =
     [[js ''15551234567@s.whatsapp.net'', js ''group@g.us''],
      [js ''15551234567@s.whatsapp.net'', js ''group@g.us'']]"
proof -
  have sched: "timers (scheduleMessages example_fs) =
      [\<lparr>offset_ms = Num 5000, tmessage = js ''hello'',
        ttargets = [js ''15551234567@s.whatsapp.net'', js ''group@g.us'']\<rparr>,
       \<lparr>offset_ms = Num 2000, tmessage = js ''world'',
        ttargets = [js ''15551234567@s.whatsapp.net'', js ''group@g.us'']\<rparr>]"
    by (simp add: example_fs_def eval_defs)
  have a: "includes_at (js ''group@g.us'')" "\<not> includes_at (js ''+1 (555) 123-4567'')"
    by (simp_all add: js_def includes_at_def)
  have d: "filter is_decimal_digit (js ''+1 (555) 123-4567'') = js ''15551234567''"
    by (simp add: js_def is_decimal_digit_def)
  have cat: "js ''15551234567'' @ js ''@s.whatsapp.net'' = js ''15551234567@s.whatsapp.net''"
    by (simp add: js_def)
  from recipient_normalized [of "js ''group@g.us''" example_fs]
    recipient_normalized [of "js ''+1 (555) 123-4567''" example_fs]
  show ?thesis
    by (simp add: a d cat sched)
qed

text \<open>
  C3. If the message list or the delay list is empty, or they differ in length, or the
  target list is empty, \<open>scheduleMessages\<close> sets no timer, so that the run makes no
  call of \<open>sock.sendMessage\<close>, and logs one warning: the first of the three whose
  condition holds. The function has no \<open>throw\<close> and returns its outcome on every such
  input.
\<close>

theorem invalid_shape_aborts:
  assumes "readLines fs MessagesTxt = [] \<or> map parseInt (readLines fs TimeTxt) = [] \<or>
           length (readLines fs MessagesTxt) \<noteq> length (map parseInt (readLines fs TimeTxt)) \<or>
           readLines fs TargetsTxt = []"
  shows "timers (scheduleMessages fs) = [] \<and>
         calls (run_schedule client fs) = [] \<and>
         console (scheduleMessages fs) =
           (if readLines fs MessagesTxt = [] \<or> map parseInt (readLines fs TimeTxt) = []
              then [WarnMessagesOrTimeEmpty]
            else if length (readLines fs MessagesTxt) \<noteq>
                    length (map parseInt (readLines fs TimeTxt))
              then [WarnLinesNotEqual]
            else [WarnTargetsEmpty])"
proof -
  have none: "timers (scheduleMessages fs) = []"
    using assms by (auto simp: scheduleMessages_def Let_def)
  then have "calls (run_schedule client fs) = []"
    by (simp add: run_schedule_def firing_order_def)
  moreover have "console (scheduleMessages fs) =
           (if readLines fs MessagesTxt = [] \<or> map parseInt (readLines fs TimeTxt) = []
              then [WarnMessagesOrTimeEmpty]
            else if length (readLines fs MessagesTxt) \<noteq>
                    length (map parseInt (readLines fs TimeTxt))
              then [WarnLinesNotEqual]
            else [WarnTargetsEmpty])"
    using assms by (auto simp: scheduleMessages_def Let_def)
  ultimately show ?thesis
    using none by simp
qed

theorem invalid_shape_aborts_witness:
  "length (readLines mismatch_fs MessagesTxt) = 2 \<and>
   length (map parseInt (readLines mismatch_fs TimeTxt)) = 3 \<and>
   timers (scheduleMessages mismatch_fs) = [] \<and>
   calls (run_schedule error_sock mismatch_fs) = [] \<and>
   console (scheduleMessages mismatch_fs) = [WarnLinesNotEqual]"
proof -
  have lines: "readLines mismatch_fs MessagesTxt = [js ''a'', js ''b'']"
    "readLines mismatch_fs TimeTxt = [js ''1'', js ''2'', js ''3'']"
    by (simp_all add: mismatch_fs_def js_def readLines_def keep_line_def startsWith_hash_def
        trim_def is_ws_def)
  have "console (scheduleMessages mismatch_fs) = [WarnLinesNotEqual]"
    by (simp add: scheduleMessages_def lines)
  with invalid_shape_aborts [of mismatch_fs error_sock] show ?thesis
    by (simp add: lines)
qed

text \<open>
  C4. When the validation passes, the timers and the \<open>Scheduled\<close> lines are those of the
  indices whose delay entry parses, in file order: an index whose entry gives NaN gets no
  timer and no console line, and costs no other index its timer. There are as many timers
  as entries that parse.
\<close>

theorem unparseable_delay_skipped:
  assumes "readLines fs MessagesTxt \<noteq> []"
    and "length (readLines fs MessagesTxt) = length (readLines fs TimeTxt)"
    and "readLines fs TargetsTxt \<noteq> []"
  shows "timers (scheduleMessages fs) =
           [\<lparr>offset_ms = times_1000 x, tmessage = m,
             ttargets = map normalize_target (readLines fs TargetsTxt)\<rparr>.
              (m, x) \<leftarrow> zip (readLines fs MessagesTxt) (map parseInt (readLines fs TimeTxt)),
              x \<noteq> NaN] \<and>
         console (scheduleMessages fs) =
           [Scheduled m x (length (readLines fs TargetsTxt)).
              (m, x) \<leftarrow> zip (readLines fs MessagesTxt) (map parseInt (readLines fs TimeTxt)),
              x \<noteq> NaN] \<and>
         length (timers (scheduleMessages fs)) =
           length (filter (\<lambda>e. parseInt e \<noteq> NaN) (readLines fs TimeTxt))"
proof -
  have "length (timers (scheduleMessages fs)) =
      length (filter (\<lambda>x. x \<noteq> NaN) (map parseInt (readLines fs TimeTxt)))"
    unfolding valid_timers [OF assms] using assms(2) by (simp only: count_of_timers length_map)
  then have "length (timers (scheduleMessages fs)) =
      length (filter (\<lambda>e. parseInt e \<noteq> NaN) (readLines fs TimeTxt))"
    by (simp add: filter_map comp_def)
  with valid_timers [OF assms] valid_console [OF assms] show ?thesis
    by simp
qed

theorem unparseable_delay_skipped_witness:
  "readLines skip_fs MessagesTxt = [js ''first'', js ''second'', js ''third''] \<and>
   readLines skip_fs TimeTxt = [js ''10'', js ''abc'', js ''-3''] \<and>
   map parseInt (readLines skip_fs TimeTxt) = [Num 10, NaN, Num (- 3)] \<and>
   timers (scheduleMessages skip_fs) =
     [\<lparr>offset_ms = Num 10000, tmessage = js ''first'',
       ttargets = [js ''15551234567@s.whatsapp.net'']\<rparr>,
      \<lparr>offset_ms = Num (- 3000), tmessage = js ''third'',
       ttargets = [js ''15551234567@s.whatsapp.net'']\<rparr>] \<and>
   console (scheduleMessages skip_fs) =
     [Scheduled (js ''first'') (Num 10) 1, Scheduled (js ''third'') (Num (- 3)) 1]"
proof -
  have lines: "readLines skip_fs MessagesTxt = [js ''first'', js ''second'', js ''third'']"
    "readLines skip_fs TimeTxt = [js ''10'', js ''abc'', js ''-3'']"
    "readLines skip_fs TargetsTxt = [js ''15551234567'']"
    by (simp_all add: skip_fs_def js_def readLines_def keep_line_def startsWith_hash_def
        trim_def is_ws_def)
  have nums: "parseInt (js ''10'') = Num 10" "parseInt (js ''abc'') = NaN"
    "parseInt (js ''-3'') = Num (- 3)"
    by (simp_all add: eval_defs)
  have offsets: "times_1000 (Num 10) = Num 10000" "times_1000 (Num (- 3)) = Num (- 3000)"
    by (simp_all add: times_1000_exact)
  have target: "normalize_target (js ''15551234567'') = js ''15551234567@s.whatsapp.net''"
    by (simp add: js_def normalize_target_def includes_at_def is_decimal_digit_def)
  from unparseable_delay_skipped [of skip_fs] show ?thesis
    by (simp add: lines nums offsets target)
qed

text \<open>
  C5. The claim has every failed send caught and logged, with no effect on the other
  recipients and messages. In the run below one address is rejected with \<open>null\<close>: the
  \<open>catch\<close> is entered, but \<open>err.message\<close> throws there, so no error line is printed
  for that recipient, the process ends, and the second message is sent to nobody. With an
  error that has a message the same run prints the error line for each failed send and
  both messages reach the other recipient.
\<close>

theorem null_rejection_not_logged:
  "null_sock 0 (js ''bad@x'') (js ''a'') = Failed ThrownNullish \<and>
   printed (run_schedule null_sock pair_fs) = [Sent (js ''2@s.whatsapp.net'') (js ''a'')] \<and>
   exited (run_schedule null_sock pair_fs) \<and>
   printed (run_schedule error_sock pair_fs) =
     [ErrorSending (js ''bad@x'') (ErrMessage (js ''boom'')),
      Sent (js ''2@s.whatsapp.net'') (js ''a''),
      ErrorSending (js ''bad@x'') (ErrMessage (js ''boom'')),
      Sent (js ''2@s.whatsapp.net'') (js ''b'')] \<and>
   \<not> exited (run_schedule error_sock pair_fs)"
proof -
  have sched: "timers (scheduleMessages pair_fs) =
      [\<lparr>offset_ms = Num 0, tmessage = js ''a'',
        ttargets = [js ''bad@x'', js ''2@s.whatsapp.net'']\<rparr>,
       \<lparr>offset_ms = Num 1000, tmessage = js ''b'',
        ttargets = [js ''bad@x'', js ''2@s.whatsapp.net'']\<rparr>]"
    by (simp add: pair_fs_def eval_defs)
  show ?thesis
    by (simp add: sched run_defs null_sock_def error_sock_def js_def)
qed




text \<open>
  C7, as amended. \<open>readLines\<close> trims every line before it tests it: for each of the three
  files, a missing file gives no line, and otherwise the parsed content is the trimmed
  lines, in order, of the lines that are not all white space and whose first character
  after the leading white space is not \<open>#\<close>.
\<close>

theorem readLines_keeps:
  "readLines fs file =
     (case fs file of
        None \<Rightarrow> []
      | Some text \<Rightarrow>
          [trim l. l \<leftarrow> split_nl text,
             \<not> list_all is_ws l \<and> \<not> startsWith_hash (trimStart l)])"
  by (simp add: readLines_def filter_keep_line split: option.split)

theorem readLines_keeps_witness:
  "readLines example_fs MessagesTxt = [js ''hello'', js ''world'']"
proof -
  have "example_fs MessagesTxt = Some (js ''hello\<newline># note\<newline>\<newline>  world  \<newline>'')"
    by (simp add: example_fs_def)
  with readLines_keeps [of example_fs MessagesTxt] show ?thesis
    by (simp add: js_def trim_def trimStart_def startsWith_hash_def is_ws_def)
qed

text \<open>
  The claim as stated calls a comment line a line starting with \<open>#\<close> and has every other
  non-blank line kept. The one line of this file starts with a space, is not blank, and
  is dropped.
\<close>

theorem indented_comment_dropped:
  "split_nl (js '' #sale today'') = [js '' #sale today''] \<and>
   \<not> list_all is_ws (js '' #sale today'') \<and>
   \<not> startsWith_hash (js '' #sale today'') \<and>
   readLines indented_fs MessagesTxt = []"
  by (simp add: indented_fs_def js_def readLines_def keep_line_def startsWith_hash_def
      trim_def is_ws_def)

text \<open>
  C8. A missing file is read as the empty list, and then \<open>scheduleMessages\<close> sets no
  timer and logs one of the three warnings, whichever file is missing and whatever the
  other two hold.
\<close>

theorem missing_file_aborts:
  assumes "fs file = None"
  shows "readLines fs file = [] \<and>
         timers (scheduleMessages fs) = [] \<and>
         (console (scheduleMessages fs) = [WarnMessagesOrTimeEmpty] \<or>
          console (scheduleMessages fs) = [WarnLinesNotEqual] \<or>
          console (scheduleMessages fs) = [WarnTargetsEmpty])"
proof -
  have empty: "readLines fs file = []"
    using assms by (rule readLines_missing)
  then have "readLines fs MessagesTxt = [] \<or> readLines fs TimeTxt = [] \<or>
      length (readLines fs MessagesTxt) \<noteq> length (readLines fs TimeTxt) \<or>
      readLines fs TargetsTxt = []"
    by (cases "file") simp_all
  from scheduleMessages_abort [OF this] empty show ?thesis
    by auto
qed

theorem missing_file_aborts_witness:
  "no_targets_fs TargetsTxt = None \<and>
   readLines no_targets_fs TargetsTxt = [] \<and>
   timers (scheduleMessages no_targets_fs) = [] \<and>
   console (scheduleMessages no_targets_fs) = [WarnTargetsEmpty]"
proof -
  have missing: "no_targets_fs TargetsTxt = None"
    by (simp add: no_targets_fs_def)
  have "console (scheduleMessages no_targets_fs) = [WarnTargetsEmpty]"
    by (simp add: no_targets_fs_def example_fs_def eval_defs)
  with missing_file_aborts [of no_targets_fs TargetsTxt] missing show ?thesis
    by simp
qed

text \<open>
  C9, as amended. \<open>GET /qr.svg\<close> answers 404 exactly when no code is pending. With a code
  pending it answers the rendered SVG when \<open>qrcode.toString\<close> returns one, and 500 when
  the renderer throws. \<open>GET /status\<close> always answers JSON with the current connection
  state.
\<close>

theorem http_surface:
  "((\<exists>body. get_qr_svg toString st = Text 404 body) \<longleftrightarrow> \<not> hasQr st) \<and>
   (get_qr_svg toString st = Svg 200 svg \<longleftrightarrow>
      (\<exists>q. lastQr st = Some q \<and> q \<noteq> [] \<and> toString q = Some svg)) \<and>
   ((\<exists>body. get_qr_svg toString st = Text 500 body) \<longleftrightarrow>
      (\<exists>q. lastQr st = Some q \<and> q \<noteq> [] \<and> toString q = None)) \<and>
   get_status authed st =
     Json 200 \<lparr>connection_field = connectionStatus st, lastError_field = lastError st,
               authed_field = authed, hasQr_field = hasQr st\<rparr>"
  by (auto simp: get_qr_svg_def get_status_def hasQr_def split: option.splits)

theorem http_surface_witness:
  "get_qr_svg svg_toString pending_state = Svg 200 (js ''<svg>2@abc</svg>'') \<and>
   get_qr_svg svg_toString (pending_state\<lparr>lastQr := None\<rparr>) = Text 404 (js ''No QR available'') \<and>
   get_status True pending_state =
     Json 200 \<lparr>connection_field = js ''qr'', lastError_field = None,
               authed_field = True, hasQr_field = True\<rparr>"
proof -
  have "lastQr pending_state = Some (js ''2@abc'')" "js ''2@abc'' \<noteq> []"
    "svg_toString (js ''2@abc'') = Some (js ''<svg>2@abc</svg>'')"
    "\<not> hasQr (pending_state\<lparr>lastQr := None\<rparr>)" "hasQr pending_state"
    "connectionStatus pending_state = js ''qr''" "lastError pending_state = None"
    by (simp_all add: pending_state_def svg_toString_def js_def hasQr_def)
  with http_surface [of svg_toString pending_state "js ''<svg>2@abc</svg>''" True]
    http_surface [of svg_toString "pending_state\<lparr>lastQr := None\<rparr>" "[]" True]
  show ?thesis
    by (auto simp: get_qr_svg_def)
qed

text \<open>
  The claim as stated has an SVG answered whenever a code is pending. With a renderer
  that throws, the \<open>catch\<close> of the handler answers 500 instead.
\<close>

theorem pending_code_render_error:
  "hasQr pending_state \<and>
   get_qr_svg failing_toString pending_state = Text 500 (js ''QR render error'')"
  by (simp add: hasQr_def pending_state_def get_qr_svg_def failing_toString_def js_def)

text \<open>
  C10, as amended. An entry that is an optional sign, then at least one decimal digit,
  then text that does not go on with a decimal digit, and whose digits and text do not
  begin with \<open>0x\<close> or \<open>0X\<close>, parses to the Number of the integer of its digits,
  negated after a minus sign: never NaN, and the integer itself when the digits are at
  most 2^53. Every entry that does not parse to NaN gets its timer, with the product of
  its Number and 1000 as offset, which for a negative delay above -2^53 milliseconds is
  that negative number of milliseconds.
\<close>

theorem leading_decimal_scheduled:
  assumes "sign = [] \<or> sign = [43] \<or> sign = [45]"
    and "ds \<noteq> []" and "\<forall>c\<in>set ds. is_decimal_digit c"
    and "case rest of [] \<Rightarrow> True | c # _ \<Rightarrow> \<not> is_decimal_digit c"
    and "\<not> hex_prefix (ds @ rest)"
  shows "parseInt (sign @ ds @ rest) =
           to_number (if sign = [45] then - int (radix_value 10 ds) else int (radix_value 10 ds)) \<and>
         parseInt (sign @ ds @ rest) \<noteq> NaN \<and>
         (radix_value 10 ds \<le> 2 ^ 53 \<longrightarrow>
            parseInt (sign @ ds @ rest) =
              Num (if sign = [45] then - int (radix_value 10 ds) else int (radix_value 10 ds))) \<and>
         (readLines fs MessagesTxt \<noteq> [] \<and>
          length (readLines fs MessagesTxt) = length (readLines fs TimeTxt) \<and>
          readLines fs TargetsTxt \<noteq> [] \<and>
          i < length (readLines fs TimeTxt) \<and> parseInt (readLines fs TimeTxt ! i) \<noteq> NaN \<longrightarrow>
          \<lparr>offset_ms = times_1000 (parseInt (readLines fs TimeTxt ! i)),
           tmessage = readLines fs MessagesTxt ! i,
           ttargets = map normalize_target (readLines fs TargetsTxt)\<rparr>
            \<in> set (timers (scheduleMessages fs))) \<and>
         (d < 0 \<and> - (2 ^ 53) < d * 1000 \<longrightarrow> times_1000 (Num d) = Num (d * 1000))"
proof -
  let ?v = "if sign = [45] then - int (radix_value 10 ds) else int (radix_value 10 ds)"
  have parse: "parseInt (sign @ ds @ rest) = to_number ?v"
    using assms(1) parseInt_unsigned [OF assms(2-5)] by auto
  have exact: "to_number ?v = Num ?v" if "radix_value 10 ds \<le> 2 ^ 53"
  proof -
    have "int (radix_value 10 ds) \<le> 2 ^ 53"
      using that by (metis of_nat_le_iff of_nat_numeral of_nat_power)
    then have "\<bar>?v\<bar> \<le> 2 ^ 53" by simp
    then show ?thesis by (rule to_number_le)
  qed
  have neg: "times_1000 (Num d) = Num (d * 1000)" if "d < 0" "- (2 ^ 53) < d * 1000"
    using that by (intro times_1000_exact) simp
  show ?thesis
    using parse exact neg timer_of_index [of fs i] by (simp add: to_number_not_NaN)
qed

theorem leading_decimal_scheduled_witness:
  "parseInt (js ''-3'') = Num (- 3) \<and> parseInt (js ''5x'') = Num 5 \<and>
   parseInt (js ''3.9'') = Num 3 \<and>
   readLines skip_fs TimeTxt ! 2 = js ''-3'' \<and>
   \<lparr>offset_ms = Num (- 3000), tmessage = js ''third'',
    ttargets = [js ''15551234567@s.whatsapp.net'']\<rparr> \<in> set (timers (scheduleMessages skip_fs))"
proof -
  have lines: "readLines skip_fs MessagesTxt = [js ''first'', js ''second'', js ''third'']"
    "readLines skip_fs TimeTxt = [js ''10'', js ''abc'', js ''-3'']"
    "readLines skip_fs TargetsTxt = [js ''15551234567'']"
    by (simp_all add: skip_fs_def js_def readLines_def keep_line_def startsWith_hash_def
        trim_def is_ws_def)
  have target: "normalize_target (js ''15551234567'') = js ''15551234567@s.whatsapp.net''"
    by (simp add: js_def normalize_target_def includes_at_def is_decimal_digit_def)
  have split: "js ''-3'' = [45] @ js ''3'' @ []" "js ''5x'' = [] @ js ''5'' @ js ''x''"
    "js ''3.9'' = [] @ js ''3'' @ js ''.9''"
    by (simp_all add: js_def)
  have vals: "radix_value 10 (js ''3'') = 3" "radix_value 10 (js ''5'') = 5"
    by (simp_all add: js_def radix_value_def digit_value_def)
  have digits: "\<forall>c\<in>set (js ''3''). is_decimal_digit c" "\<forall>c\<in>set (js ''5''). is_decimal_digit c"
    "js ''3'' \<noteq> []" "js ''5'' \<noteq> []"
    by (simp_all add: js_def is_decimal_digit_def)
  have rests: "case js ''x'' of [] \<Rightarrow> True | c # _ \<Rightarrow> \<not> is_decimal_digit c"
    "case js ''.9'' of [] \<Rightarrow> True | c # _ \<Rightarrow> \<not> is_decimal_digit c"
    "\<not> hex_prefix (js ''3'' @ [])" "\<not> hex_prefix (js ''5'' @ js ''x'')"
    "\<not> hex_prefix (js ''3'' @ js ''.9'')"
    by (simp_all add: js_def is_decimal_digit_def hex_prefix_def)
  have a: "parseInt (js ''-3'') = Num (- 3)"
    using leading_decimal_scheduled [of "[45]" "js ''3''" "[]" skip_fs 2 "- 3"] digits rests
    by (simp add: vals split(1) to_number_exact)
  then have a': "\<lparr>offset_ms = Num (- 3000), tmessage = js ''third'',
      ttargets = [js ''15551234567@s.whatsapp.net'']\<rparr> \<in> set (timers (scheduleMessages skip_fs))"
    using leading_decimal_scheduled [of "[45]" "js ''3''" "[]" skip_fs 2 "- 3"] digits rests
    by (simp add: lines target times_1000_exact)
  have b: "parseInt (js ''5x'') = Num 5"
    using leading_decimal_scheduled [of "[]" "js ''5''" "js ''x''" skip_fs 0 0] digits rests
    by (simp add: vals split(2) to_number_exact)
  have c: "parseInt (js ''3.9'') = Num 3"
    using leading_decimal_scheduled [of "[]" "js ''3''" "js ''.9''" skip_fs 0 0] digits rests
    by (simp add: vals split(3) to_number_exact)
  from a a' b c show ?thesis by (simp add: lines)
qed

text \<open>
  The claim as stated has every entry with a leading integer parsed to that integer and
  scheduled. The entry \<open>0x\<close> is the digit 0 followed by a letter, as \<open>5x\<close> is; it is read
  as a hexadecimal prefix with no digit after it, gives NaN, and is skipped. \<open>0x1F\<close> is
  31, not 0, and the digits 9007199254740993 give the double 9007199254740992.
\<close>

theorem hex_entry_skipped:
  "js ''0x'' = js ''0'' @ js ''x'' \<and> list_all is_decimal_digit (js ''0'') \<and>
   \<not> list_ex is_decimal_digit (js ''x'') \<and>
   parseInt (js ''0x'') = NaN \<and>
   readLines hex_fs TimeTxt = [js ''0x''] \<and>
   scheduleMessages hex_fs = \<lparr>timers = [], console = []\<rparr> \<and>
   parseInt (js ''0x1F'') = Num 31 \<and>
   parseInt (js ''9007199254740993'') = Num 9007199254740992"
  by (simp add: hex_fs_def eval_defs bitlen.simps)

end
